theory Spec2Isabelle
  imports Main "HOL-Library.Word"
begin

section \<open>Data of \<^verbatim>\<open>Task 3/main.c\<close>\<close>

text \<open>
  The classification of the push button, \<^verbatim>\<open>enum pushButtonStates\<close>
  (lines 78 to 82). The spec calls the three values Short, Medium and Long.
\<close>

datatype pushButtonStates = lessThanTwoSecs | lessThanFourSecs | moreThanFourSecs

text \<open>
  Modelled from the spec: \<^verbatim>\<open>GPIO.h\<close> is not among the sources. A line has
  two levels; of the ports and pins only the names that \<^verbatim>\<open>main.c\<close> uses
  are kept. The button is read as pressed (the spec's Asserted) when the level
  is \<^verbatim>\<open>PIN_IS_LOW\<close> (lines 142, 146, 150 and their comments).
\<close>

datatype pinState_t = PIN_IS_LOW | PIN_IS_HIGH

datatype portX_t = PORT_0

datatype pinX_t = PIN0 | PIN1

text \<open>The two task functions that \<^verbatim>\<open>main\<close> hands to \<^verbatim>\<open>xTaskCreate\<close>.\<close>

datatype task = LedToggle | ButtonCheck

text \<open>
  What a task does to the world, one entry per call or access of the shared
  variable, in program order. The trace is bookkeeping of the model; the
  program itself keeps none.
\<close>

datatype action =
    Read portX_t pinX_t pinState_t
  | Write portX_t pinX_t pinState_t
  | Delay nat
  | Load pushButtonStates
  | Store pushButtonStates

text \<open>
  The input lines as the environment drives them: the level of a pin at each
  instant. Time is counted in scheduler ticks.
\<close>

type_synonym lines = "portX_t \<Rightarrow> pinX_t \<Rightarrow> nat \<Rightarrow> pinState_t"

text \<open>
  The state of the system: the global \<^verbatim>\<open>pushButtonState\<close> (line 84), the
  output latches of the GPIO block, and for each task the instant at which it
  executes its next statement together with the trace of what it has done.
\<close>

record system =
  pushButtonState :: pushButtonStates
  out :: "portX_t \<times> pinX_t \<Rightarrow> pinState_t"
  now :: "task \<Rightarrow> nat"
  log :: "task \<Rightarrow> (nat \<times> action) list"

datatype error = AssertFailed

section \<open>The calls into the kernel and the GPIO driver\<close>

definition record_action :: "task \<Rightarrow> action \<Rightarrow> system \<Rightarrow> system" where
  "record_action c a s = s\<lparr>log := (log s)(c := log s c @ [(now s c, a)])\<rparr>"

text \<open>
  Modelled from the spec: the kernel is not among the sources.
  \<^verbatim>\<open>vTaskDelay\<close> suspends the calling task \<open>c\<close> for the given interval; the
  spec gives the intervals in milliseconds, so one tick is one millisecond, the
  task resumes exactly when the interval has elapsed, and the statements
  between two delays take no time.
\<close>

definition vTaskDelay :: "task \<Rightarrow> nat \<Rightarrow> system \<Rightarrow> system" where
  "vTaskDelay c n s = (let s' = record_action c (Delay n) s in s'\<lparr>now := (now s')(c := now s' c + n)\<rparr>)"

text \<open>
  Modelled from the spec: the GPIO driver is not among the sources. A read
  returns the level of the line at the instant of the call and always succeeds;
  a write sets the output latch and always succeeds.
\<close>

definition GPIO_read :: "task \<Rightarrow> lines \<Rightarrow> portX_t \<Rightarrow> pinX_t \<Rightarrow> system \<Rightarrow> pinState_t \<times> system" where
  "GPIO_read c env port pin s =
     (let v = env port pin (now s c) in (v, record_action c (Read port pin v) s))"

definition GPIO_write :: "task \<Rightarrow> portX_t \<Rightarrow> pinX_t \<Rightarrow> pinState_t \<Rightarrow> system \<Rightarrow> system" where
  "GPIO_write c port pin v s =
     (let s' = record_action c (Write port pin v) s in s'\<lparr>out := (out s')((port, pin) := v)\<rparr>)"

text \<open>The two accesses to the global variable: the \<^verbatim>\<open>switch\<close> reads it, the assignments write it.\<close>

definition load_pushButtonState :: "task \<Rightarrow> system \<Rightarrow> pushButtonStates \<times> system" where
  "load_pushButtonState c s = (pushButtonState s, record_action c (Load (pushButtonState s)) s)"

definition store_pushButtonState :: "task \<Rightarrow> pushButtonStates \<Rightarrow> system \<Rightarrow> system" where
  "store_pushButtonState c b s = (record_action c (Store b) s)\<lparr>pushButtonState := b\<rparr>"

section \<open>The LED task, \<^verbatim>\<open>ledToggle\<close> (lines 95 to 134)\<close>

text \<open>One pass of the \<^verbatim>\<open>for( ;; )\<close> loop: the \<^verbatim>\<open>switch\<close> on \<^verbatim>\<open>pushButtonState\<close>.\<close>

definition ledToggle_body :: "system \<Rightarrow> system" where
  "ledToggle_body s0 =
     (let (band, s) = load_pushButtonState LedToggle s0 in
      case band of
        lessThanTwoSecs \<Rightarrow>
          GPIO_write LedToggle PORT_0 PIN0 PIN_IS_LOW s
      | lessThanFourSecs \<Rightarrow>
          (let s = GPIO_write LedToggle PORT_0 PIN0 PIN_IS_HIGH s;
               s = vTaskDelay LedToggle 400 s;
               s = GPIO_write LedToggle PORT_0 PIN0 PIN_IS_LOW s;
               s = vTaskDelay LedToggle 400 s
           in s)
      | moreThanFourSecs \<Rightarrow>
          (let s = GPIO_write LedToggle PORT_0 PIN0 PIN_IS_HIGH s;
               s = vTaskDelay LedToggle 100 s;
               s = GPIO_write LedToggle PORT_0 PIN0 PIN_IS_LOW s;
               s = vTaskDelay LedToggle 100 s
           in s))"

text \<open>The loop never ends; \<open>ledToggle_loop n\<close> is the state after its first \<open>n\<close> passes.\<close>

fun ledToggle_loop :: "nat \<Rightarrow> system \<Rightarrow> system" where
  "ledToggle_loop 0 s = s"
| "ledToggle_loop (Suc n) s = ledToggle_loop n (ledToggle_body s)"

text \<open>
  The task function: \<^verbatim>\<open>configASSERT\<close> on the parameter (line 99), then the
  loop. The parameter is the \<^verbatim>\<open>void *\<close> cast to \<^verbatim>\<open>uint32_t\<close>.
\<close>

definition ledToggle :: "32 word \<Rightarrow> nat \<Rightarrow> system \<Rightarrow> error + system" where
  "ledToggle pvParameters n s =
     (if pvParameters = 1 then Inr (ledToggle_loop n s) else Inl AssertFailed)"

section \<open>The button task, \<^verbatim>\<open>buttonCheck\<close> (lines 136 to 173)\<close>

text \<open>One pass of the \<^verbatim>\<open>while (1)\<close> loop.\<close>

definition buttonCheck_body :: "lines \<Rightarrow> system \<Rightarrow> system" where
  "buttonCheck_body env s0 =
     (let (button, s) = GPIO_read ButtonCheck env PORT_0 PIN1 s0 in
      if button = PIN_IS_LOW then
        (let s = vTaskDelay ButtonCheck 2000 s;
             (button, s) = GPIO_read ButtonCheck env PORT_0 PIN1 s in
         if button = PIN_IS_LOW then
           (let s = vTaskDelay ButtonCheck 2000 s;
                (button, s) = GPIO_read ButtonCheck env PORT_0 PIN1 s in
            if button = PIN_IS_LOW then
              store_pushButtonState ButtonCheck moreThanFourSecs s
            else
              (let s = store_pushButtonState ButtonCheck lessThanFourSecs s;
                   s = vTaskDelay ButtonCheck 2000 s
               in s))
         else
           store_pushButtonState ButtonCheck lessThanTwoSecs s)
      else
        store_pushButtonState ButtonCheck lessThanTwoSecs s)"

fun buttonCheck_loop :: "nat \<Rightarrow> lines \<Rightarrow> system \<Rightarrow> system" where
  "buttonCheck_loop 0 env s = s"
| "buttonCheck_loop (Suc n) env s = buttonCheck_loop n env (buttonCheck_body env s)"

definition buttonCheck :: "32 word \<Rightarrow> nat \<Rightarrow> lines \<Rightarrow> system \<Rightarrow> error + system" where
  "buttonCheck pvParameters n env s =
     (if pvParameters = 1 then Inr (buttonCheck_loop n env s) else Inl AssertFailed)"

section \<open>The two tasks together\<close>

text \<open>
  The state at start-up. \<^verbatim>\<open>pushButtonState\<close> is a global without an
  initialiser, so C sets it to zero, the first enumerator. The output latches
  are whatever \<^verbatim>\<open>GPIO_init\<close> left.
\<close>

definition system_init :: "(portX_t \<times> pinX_t \<Rightarrow> pinState_t) \<Rightarrow> system" where
  "system_init latches =
     \<lparr>pushButtonState = lessThanTwoSecs, out = latches, now = (\<lambda>_. 0), log = (\<lambda>_. [])\<rparr>"

text \<open>
  A run of the system is a sequence of loop passes, each of one of the two
  tasks, in any order.
\<close>

definition pass :: "lines \<Rightarrow> task \<Rightarrow> system \<Rightarrow> system" where
  "pass env c s = (case c of LedToggle \<Rightarrow> ledToggle_body s | ButtonCheck \<Rightarrow> buttonCheck_body env s)"

fun run :: "lines \<Rightarrow> task list \<Rightarrow> system \<Rightarrow> system" where
  "run env [] s = s"
| "run env (c # cs) s = run env cs (pass env c s)"

text \<open>The writes of \<^verbatim>\<open>pushButtonState\<close> in a trace, and the reads of it, in order.\<close>

fun stores :: "(nat \<times> action) list \<Rightarrow> (nat \<times> pushButtonStates) list" where
  "stores [] = []"
| "stores ((t, Store b) # es) = (t, b) # stores es"
| "stores (e # es) = stores es"

fun loads :: "(nat \<times> action) list \<Rightarrow> (nat \<times> pushButtonStates) list" where
  "loads [] = []"
| "loads ((t, Load b) # es) = (t, b) # loads es"
| "loads (e # es) = loads es"

text \<open>
  The value of the variable at instant \<open>t\<close>, given the writes made so far: the
  last one made at or before \<open>t\<close>, or the initial value when there is none.
\<close>

definition value_at :: "(nat \<times> pushButtonStates) list \<Rightarrow> nat \<Rightarrow> pushButtonStates" where
  "value_at ws t = foldl (\<lambda>v (u, b). if u \<le> t then b else v) lessThanTwoSecs ws"

text \<open>
  The trace that a sequence of calls leaves when it starts at instant \<open>t\<close>:
  each call is stamped with the instant at which it is made, and a delay moves
  the calls after it by its interval.
\<close>

fun stamp :: "nat \<Rightarrow> action list \<Rightarrow> (nat \<times> action) list" where
  "stamp t [] = []"
| "stamp t (Delay n # as) = (t, Delay n) # stamp (t + n) as"
| "stamp t (a # as) = (t, a) # stamp t as"

text \<open>
  For how long a trace shows its task suspended after the last write of
  \<^verbatim>\<open>pushButtonState\<close> in it: the delays that follow that write, added up.
\<close>

fun delay_since_store :: "nat \<Rightarrow> (nat \<times> action) list \<Rightarrow> nat" where
  "delay_since_store acc [] = acc"
| "delay_since_store acc ((t, Store b) # es) = delay_since_store 0 es"
| "delay_since_store acc ((t, Delay n) # es) = delay_since_store (acc + n) es"
| "delay_since_store acc (e # es) = delay_since_store acc es"

text \<open>The value that the latest of a list of writes left, the initial value when there is none.\<close>

definition latest :: "(nat \<times> pushButtonStates) list \<Rightarrow> pushButtonStates" where
  "latest ws = (case rev ws of [] \<Rightarrow> lessThanTwoSecs | (t, b) # _ \<Rightarrow> b)"

section \<open>The LED task beside the button task\<close>

text \<open>The calls of each case of the \<^verbatim>\<open>switch\<close> (lines 106 to 131), in order.\<close>

fun switch_calls :: "pushButtonStates \<Rightarrow> action list" where
  "switch_calls lessThanTwoSecs = [Write PORT_0 PIN0 PIN_IS_LOW]"
| "switch_calls lessThanFourSecs =
     [Write PORT_0 PIN0 PIN_IS_HIGH, Delay 400, Write PORT_0 PIN0 PIN_IS_LOW, Delay 400]"
| "switch_calls moreThanFourSecs =
     [Write PORT_0 PIN0 PIN_IS_HIGH, Delay 100, Write PORT_0 PIN0 PIN_IS_LOW, Delay 100]"

text \<open>One call, made by task \<open>c\<close>.\<close>

fun call :: "task \<Rightarrow> action \<Rightarrow> system \<Rightarrow> system" where
  "call c (Write port pin v) s = GPIO_write c port pin v s"
| "call c (Delay n) s = vTaskDelay c n s"
| "call c a s = s"








section \<open>The entry point, \<^verbatim>\<open>main\<close> (lines 183 to 225)\<close>

text \<open>What \<^verbatim>\<open>xTaskCreate\<close> is given for a task.\<close>

record tcb =
  pxTaskCode :: task
  pcName :: string
  usStackDepth :: nat
  pvParameters :: "32 word"
  uxPriority :: nat

text \<open>
  Modelled from the spec: the kernel is not among the sources.
  \<^verbatim>\<open>xTaskCreate\<close> adds the task to the ready list when the kernel can
  allocate it (\<open>heap_ok\<close>) and adds nothing otherwise; \<^verbatim>\<open>main\<close> ignores
  the result.
\<close>

definition xTaskCreate :: "bool \<Rightarrow> tcb \<Rightarrow> tcb list \<Rightarrow> tcb list" where
  "xTaskCreate heap_ok t ready = (if heap_ok then ready @ [t] else ready)"

text \<open>
  Modelled from the spec: \<^verbatim>\<open>vTaskStartScheduler\<close> does not return
  (\<open>None\<close>) once the scheduler runs; it returns only when there is not
  enough heap for the idle task.
\<close>

definition vTaskStartScheduler :: "bool \<Rightarrow> tcb list \<Rightarrow> unit option" where
  "vTaskStartScheduler heap_ok ready = (if heap_ok then None else Some ())"

text \<open>The \<^verbatim>\<open>for( ;; );\<close> of line 224.\<close>

partial_function (option) for_ever :: "unit \<Rightarrow> int option" where
  "for_ever u = for_ever u"

text \<open>The two calls of \<^verbatim>\<open>xTaskCreate\<close> (lines 191 to 207).\<close>

definition create_tasks :: "bool \<Rightarrow> bool \<Rightarrow> tcb list" where
  "create_tasks heap1 heap2 =
     (let ready = xTaskCreate heap1
            \<lparr>pxTaskCode = LedToggle, pcName = ''LED Toggle'', usStackDepth = 90,
             pvParameters = 1, uxPriority = 1\<rparr> [];
          ready = xTaskCreate heap2
            \<lparr>pxTaskCode = ButtonCheck, pcName = ''button Check'', usStackDepth = 90,
             pvParameters = 1, uxPriority = 2\<rparr> ready
      in ready)"

text \<open>
  \<^verbatim>\<open>main\<close>: the hardware set-up (which touches none of the state modelled
  here), the two tasks, the scheduler, and the loop behind it. The result is
  the \<^verbatim>\<open>int\<close> that \<^verbatim>\<open>main\<close> would return, \<open>None\<close> when it does not
  return.
\<close>

definition main :: "bool \<Rightarrow> bool \<Rightarrow> bool \<Rightarrow> int option" where
  "main heap1 heap2 heap3 =
     (case vTaskStartScheduler heap3 (create_tasks heap1 heap2) of
        None \<Rightarrow> None
      | Some _ \<Rightarrow> for_ever ())"

text \<open>What the scheduler runs for a created task: its function, on its parameter.\<close>

definition task_entry :: "tcb \<Rightarrow> nat \<Rightarrow> lines \<Rightarrow> system \<Rightarrow> error + system" where
  "task_entry t n env s =
     (case pxTaskCode t of
        LedToggle \<Rightarrow> ledToggle (pvParameters t) n s
      | ButtonCheck \<Rightarrow> buttonCheck (pvParameters t) n env s)"

section \<open>Concrete inputs\<close>

text \<open>All output latches high at start-up.\<close>

definition all_high :: "portX_t \<times> pinX_t \<Rightarrow> pinState_t" where
  "all_high k = PIN_IS_HIGH"

text \<open>The button held from instant \<open>t0\<close> for \<open>d\<close> ticks, released before and after.\<close>

definition held_for :: "nat \<Rightarrow> nat \<Rightarrow> lines" where
  "held_for t0 d port pin t = (if t0 \<le> t \<and> t \<le> t0 + d then PIN_IS_LOW else PIN_IS_HIGH)"

text \<open>The button never pressed.\<close>

definition never_pressed :: lines where
  "never_pressed port pin t = PIN_IS_HIGH"





text \<open>Every value that the LED task has read was the initial one or one that the button task wrote.\<close>

definition loads_written :: "system \<Rightarrow> bool" where
  "loads_written s \<longleftrightarrow>
     (\<forall>b \<in> insert (pushButtonState s) (snd ` set (loads (log s LedToggle))).
        b = lessThanTwoSecs \<or> b \<in> snd ` set (stores (log s ButtonCheck)))"

text \<open>The instant at which an entry of a trace is over: a delay when its interval has elapsed.\<close>

fun ends :: "nat \<times> action \<Rightarrow> nat" where
  "ends (u, Delay n) = u + n"
| "ends (u, a) = u"





section \<open>What the calls and the two loop bodies do to the state\<close>

lemmas calls = record_action_def vTaskDelay_def GPIO_read_def GPIO_write_def
  load_pushButtonState_def store_pushButtonState_def Let_def

lemma stores_append: "stores (xs @ ys) = stores xs @ stores ys"
  by (induction xs rule: stores.induct) simp_all

lemma loads_append: "loads (xs @ ys) = loads xs @ loads ys"
  by (induction xs rule: loads.induct) simp_all

lemma delay_since_store_append:
  "delay_since_store acc (xs @ ys) = delay_since_store (delay_since_store acc xs) ys"
  by (induction acc xs rule: delay_since_store.induct) simp_all

lemma for_ever_None: "for_ever u = None"
proof (rule ccontr)
  assume "for_ever u \<noteq> None"
  then obtain y where "for_ever u = Some y" by auto
  then show False
    by (rule for_ever.raw_induct [rotated, where P = "\<lambda>_ _. False"]) blast
qed

text \<open>What a pass of each loop does to the fields.\<close>

lemma ledToggle_body_state: "pushButtonState (ledToggle_body s) = pushButtonState s"
  by (cases "pushButtonState s") (simp_all add: ledToggle_body_def calls)

lemma ledToggle_body_button_log: "log (ledToggle_body s) ButtonCheck = log s ButtonCheck"
  by (cases "pushButtonState s") (simp_all add: ledToggle_body_def calls)

lemma ledToggle_body_log:
  "log (ledToggle_body s) LedToggle = log s LedToggle @ stamp (now s LedToggle)
     (Load (pushButtonState s) #
      (case pushButtonState s of
         lessThanTwoSecs \<Rightarrow> [Write PORT_0 PIN0 PIN_IS_LOW]
       | lessThanFourSecs \<Rightarrow>
           [Write PORT_0 PIN0 PIN_IS_HIGH, Delay 400, Write PORT_0 PIN0 PIN_IS_LOW, Delay 400]
       | moreThanFourSecs \<Rightarrow>
           [Write PORT_0 PIN0 PIN_IS_HIGH, Delay 100, Write PORT_0 PIN0 PIN_IS_LOW, Delay 100]))"
  by (cases "pushButtonState s") (simp_all add: ledToggle_body_def calls)

lemma ledToggle_body_now:
  "now (ledToggle_body s) LedToggle = now s LedToggle +
     (case pushButtonState s of lessThanTwoSecs \<Rightarrow> 0 | lessThanFourSecs \<Rightarrow> 800 | moreThanFourSecs \<Rightarrow> 200)"
  by (cases "pushButtonState s") (simp_all add: ledToggle_body_def calls)

lemma ledToggle_body_loads:
  "loads (log (ledToggle_body s) LedToggle) =
     loads (log s LedToggle) @ [(now s LedToggle, pushButtonState s)]"
  by (cases "pushButtonState s") (simp_all add: ledToggle_body_log loads_append)

lemma ledToggle_body_stores: "stores (log (ledToggle_body s) c) = stores (log s c)"
proof (cases c)
  case LedToggle
  then show ?thesis
    by (cases "pushButtonState s") (simp_all add: ledToggle_body_log stores_append)
next
  case ButtonCheck
  then show ?thesis by (simp add: ledToggle_body_button_log)
qed

lemma buttonCheck_body_led_log: "log (buttonCheck_body env s) LedToggle = log s LedToggle"
  by (simp add: buttonCheck_body_def calls)

lemma buttonCheck_body_stores:
  "\<exists>t. stores (log (buttonCheck_body env s) ButtonCheck) =
     stores (log s ButtonCheck) @ [(t, pushButtonState (buttonCheck_body env s))]"
  by (simp add: buttonCheck_body_def calls stores_append)

lemma ledToggle_loop_state: "pushButtonState (ledToggle_loop k s) = pushButtonState s"
  by (induction k arbitrary: s) (simp_all add: ledToggle_body_state)

lemma value_at_snoc: "value_at (ws @ [(u, b)]) t = (if u \<le> t then b else value_at ws t)"
  by (simp add: value_at_def)



lemma buttonCheck_body_idle:
  "env PORT_0 PIN1 (now s ButtonCheck) = PIN_IS_HIGH \<Longrightarrow>
     pushButtonState (buttonCheck_body env s) = lessThanTwoSecs"
  by (simp add: buttonCheck_body_def calls)

lemma buttonCheck_loop_idle:
  assumes "\<forall>t. env PORT_0 PIN1 t = PIN_IS_HIGH" and "pushButtonState s = lessThanTwoSecs"
  shows "pushButtonState (buttonCheck_loop n env s) = lessThanTwoSecs"
  using assms(2)
proof (induction n arbitrary: s)
  case 0
  then show ?case by simp
next
  case (Suc n)
  have "pushButtonState (buttonCheck_body env s) = lessThanTwoSecs"
    using assms(1) by (simp add: buttonCheck_body_idle)
  then show ?case by (simp add: Suc.IH)
qed

lemma latest_snoc: "latest (ws @ [(t, b)]) = b"
  by (simp add: latest_def)

lemma pass_latest:
  assumes "pushButtonState s = latest (stores (log s ButtonCheck))"
  shows "pushButtonState (pass env c s) = latest (stores (log (pass env c s) ButtonCheck))"
proof (cases c)
  case LedToggle
  with assms show ?thesis
    by (simp add: pass_def ledToggle_body_state ledToggle_body_button_log)
next
  case ButtonCheck
  obtain t where "stores (log (buttonCheck_body env s) ButtonCheck) =
      stores (log s ButtonCheck) @ [(t, pushButtonState (buttonCheck_body env s))]"
    using buttonCheck_body_stores by blast
  with ButtonCheck show ?thesis by (simp add: pass_def latest_snoc)
qed

lemma run_latest:
  "pushButtonState s = latest (stores (log s ButtonCheck)) \<Longrightarrow>
     pushButtonState (run env cs s) = latest (stores (log (run env cs s) ButtonCheck))"
  by (induction cs arbitrary: s) (simp_all add: pass_latest)

lemma pass_loads_written:
  assumes "loads_written s"
  shows "loads_written (pass env c s)"
proof (cases c)
  case LedToggle
  with assms show ?thesis
    by (auto simp: loads_written_def pass_def ledToggle_body_state ledToggle_body_button_log
        ledToggle_body_loads)
next
  case ButtonCheck
  obtain t where "stores (log (buttonCheck_body env s) ButtonCheck) =
      stores (log s ButtonCheck) @ [(t, pushButtonState (buttonCheck_body env s))]"
    using buttonCheck_body_stores by blast
  with ButtonCheck assms show ?thesis
    by (auto simp: loads_written_def pass_def buttonCheck_body_led_log)
qed

lemma run_loads_written: "loads_written s \<Longrightarrow> loads_written (run env cs s)"
  by (induction cs arbitrary: s) (simp_all add: pass_loads_written)

section \<open>The LED task beside the button task: lemmas\<close>




text \<open>The step model makes the calls of \<^verbatim>\<open>ledToggle\<close>: a pass is the read and then the calls of its case.\<close>

lemma ledToggle_body_calls:
  "ledToggle_body s =
     foldl (\<lambda>s a. call LedToggle a s) (snd (load_pushButtonState LedToggle s))
       (switch_calls (pushButtonState s))"
  by (cases "pushButtonState s") (simp_all add: ledToggle_body_def calls)






lemma ends_ge: "fst e \<le> ends e"
  by (cases e rule: ends.cases) auto































section \<open>The properties\<close>

text \<open>
  C1. A press that begins at the instant \<open>t0\<close> of the first read of a pass, is held
  for \<open>d\<close> ticks (the line reads low from \<open>t0\<close> to \<open>t0 + d\<close> and high at every
  other instant) and is then released: the pass writes \<open>lessThanTwoSecs\<close> when
  \<open>d < 2000\<close>, \<open>lessThanFourSecs\<close> when \<open>2000 \<le> d < 4000\<close>, and
  \<open>moreThanFourSecs\<close> when \<open>4000 \<le> d\<close>; it is the one write of the pass.
\<close>

theorem buttonCheck_band:
  assumes "now s ButtonCheck = t0"
    and "\<forall>t. env PORT_0 PIN1 t = PIN_IS_LOW \<longleftrightarrow> t0 \<le> t \<and> t \<le> t0 + d"
  shows "pushButtonState (buttonCheck_body env s) =
           (if d < 2000 then lessThanTwoSecs
            else if d < 4000 then lessThanFourSecs else moreThanFourSecs)
       \<and> stores (log (buttonCheck_body env s) ButtonCheck) =
           stores (log s ButtonCheck) @
             [(if d < 2000 then (t0 + 2000, lessThanTwoSecs)
               else if d < 4000 then (t0 + 4000, lessThanFourSecs)
               else (t0 + 4000, moreThanFourSecs))]"
  using assms by (simp add: buttonCheck_body_def calls stores_append)

theorem buttonCheck_band_witness:
  "pushButtonState (buttonCheck_body (held_for 0 3000) (system_init all_high)) = lessThanFourSecs
   \<and> stores (log (buttonCheck_body (held_for 0 3000) (system_init all_high)) ButtonCheck) =
       [(4000, lessThanFourSecs)]"
  using buttonCheck_band [of "system_init all_high" 0 "held_for 0 3000" 3000]
  by (simp add: held_for_def system_init_def)

text \<open>
  C2. When every read of the button line returns high (not pressed), the variable is
  \<open>lessThanTwoSecs\<close> after any number of passes from start-up, and after every pass
  from any state whatever.
\<close>

theorem buttonCheck_idle:
  assumes "\<forall>t. env PORT_0 PIN1 t = PIN_IS_HIGH"
  shows "pushButtonState (buttonCheck_loop n env (system_init latches)) = lessThanTwoSecs
       \<and> pushButtonState (buttonCheck_loop (Suc n) env s) = lessThanTwoSecs"
proof
  show "pushButtonState (buttonCheck_loop n env (system_init latches)) = lessThanTwoSecs"
    using assms by (rule buttonCheck_loop_idle) (simp add: system_init_def)
  have "pushButtonState (buttonCheck_body env s) = lessThanTwoSecs"
    using assms by (simp add: buttonCheck_body_idle)
  with assms show "pushButtonState (buttonCheck_loop (Suc n) env s) = lessThanTwoSecs"
    by (simp add: buttonCheck_loop_idle)
qed

theorem buttonCheck_idle_witness:
  "pushButtonState (buttonCheck_loop 5 never_pressed (system_init all_high)) = lessThanTwoSecs
   \<and> pushButtonState (buttonCheck_loop (Suc 5) never_pressed
         (buttonCheck_body (held_for 0 3000) (system_init all_high))) = lessThanTwoSecs"
  using buttonCheck_idle [of never_pressed 5 all_high
      "buttonCheck_body (held_for 0 3000) (system_init all_high)"]
  by (simp add: never_pressed_def)

text \<open>
  C3. One pass of the LED loop does what the value read at its top says:
  \<open>lessThanTwoSecs\<close>, the output low and no delay; \<open>lessThanFourSecs\<close>, high, 400,
  low, 400; \<open>moreThanFourSecs\<close>, high, 100, low, 100. The pass ends with the output
  low, after 0, 800 or 200 ticks.
\<close>

theorem ledToggle_pattern:
  "log (ledToggle_body s) LedToggle = log s LedToggle @ stamp (now s LedToggle)
     (Load (pushButtonState s) #
      (case pushButtonState s of
         lessThanTwoSecs \<Rightarrow> [Write PORT_0 PIN0 PIN_IS_LOW]
       | lessThanFourSecs \<Rightarrow>
           [Write PORT_0 PIN0 PIN_IS_HIGH, Delay 400, Write PORT_0 PIN0 PIN_IS_LOW, Delay 400]
       | moreThanFourSecs \<Rightarrow>
           [Write PORT_0 PIN0 PIN_IS_HIGH, Delay 100, Write PORT_0 PIN0 PIN_IS_LOW, Delay 100]))
   \<and> now (ledToggle_body s) LedToggle = now s LedToggle +
       (case pushButtonState s of
          lessThanTwoSecs \<Rightarrow> 0 | lessThanFourSecs \<Rightarrow> 400 + 400 | moreThanFourSecs \<Rightarrow> 100 + 100)
   \<and> out (ledToggle_body s) (PORT_0, PIN0) = PIN_IS_LOW"
  by (cases "pushButtonState s") (simp_all add: ledToggle_body_def calls)

text \<open>
  C4. After the write of a pass the button task is suspended for 2000 more ticks when
  the value written is \<open>lessThanFourSecs\<close>, and not at all when it is one of the
  other two; the next pass, and with it the next read of the line, begins that long
  after the write.
\<close>

theorem buttonCheck_cooldown:
  "delay_since_store 0 (log (buttonCheck_body env s) ButtonCheck) =
     (if pushButtonState (buttonCheck_body env s) = lessThanFourSecs then 2000 else 0)
   \<and> now (buttonCheck_body env s) ButtonCheck =
       fst (last (stores (log (buttonCheck_body env s) ButtonCheck))) +
       (if pushButtonState (buttonCheck_body env s) = lessThanFourSecs then 2000 else 0)"
  by (simp add: buttonCheck_body_def calls stores_append delay_since_store_append)

theorem buttonCheck_cooldown_witness:
  "delay_since_store 0 (log (buttonCheck_body (held_for 0 3000) (system_init all_high)) ButtonCheck) = 2000
   \<and> delay_since_store 0 (log (buttonCheck_body (held_for 0 1000) (system_init all_high)) ButtonCheck) = 0
   \<and> delay_since_store 0 (log (buttonCheck_body (held_for 0 5000) (system_init all_high)) ButtonCheck) = 0
   \<and> delay_since_store 0 (log (buttonCheck_body never_pressed (system_init all_high)) ButtonCheck) = 0"
  using buttonCheck_cooldown [of "held_for 0 3000" "system_init all_high"]
    buttonCheck_cooldown [of "held_for 0 1000" "system_init all_high"]
    buttonCheck_cooldown [of "held_for 0 5000" "system_init all_high"]
    buttonCheck_cooldown [of never_pressed "system_init all_high"]
  by (simp add: buttonCheck_body_def calls held_for_def never_pressed_def system_init_def)

text \<open>
  C5. At start-up the variable is \<open>lessThanTwoSecs\<close>; after any sequence of passes of
  the two tasks it is the value of the latest write of the button task, or still the
  initial value when that task has not written yet.
\<close>

theorem pushButtonState_latest_store:
  "pushButtonState (system_init latches) = lessThanTwoSecs
   \<and> pushButtonState (run env cs (system_init latches)) =
       latest (stores (log (run env cs (system_init latches)) ButtonCheck))"
proof
  show "pushButtonState (system_init latches) = lessThanTwoSecs"
    by (simp add: system_init_def)
  have "pushButtonState (system_init latches) =
      latest (stores (log (system_init latches) ButtonCheck))"
    by (simp add: system_init_def latest_def)
  then show "pushButtonState (run env cs (system_init latches)) =
      latest (stores (log (run env cs (system_init latches)) ButtonCheck))"
    by (rule run_latest)
qed




text \<open>
  C7. A pass of the LED loop leaves the variable as it was and adds no write of it to
  any trace; and in any run from start-up every value that the LED task has read is
  the initial one or a value that the button task has written.
\<close>

theorem ledToggle_never_writes:
  "pushButtonState (ledToggle_body s) = pushButtonState s
   \<and> stores (log (ledToggle_body s) c) = stores (log s c)
   \<and> (\<forall>b \<in> snd ` set (loads (log (run env cs (system_init latches)) LedToggle)).
        b = lessThanTwoSecs \<or>
        b \<in> snd ` set (stores (log (run env cs (system_init latches)) ButtonCheck)))"
proof -
  have "loads_written (system_init latches)"
    by (simp add: loads_written_def system_init_def)
  then have "loads_written (run env cs (system_init latches))"
    by (rule run_loads_written)
  then show ?thesis
    by (simp add: loads_written_def ledToggle_body_state ledToggle_body_stores)
qed

theorem ledToggle_never_writes_witness:
  "loads (log (run (held_for 0 3000) [LedToggle, ButtonCheck, LedToggle] (system_init all_high)) LedToggle) =
     [(0, lessThanTwoSecs), (0, lessThanFourSecs)]
   \<and> stores (log (run (held_for 0 3000) [LedToggle, ButtonCheck, LedToggle] (system_init all_high)) ButtonCheck) =
     [(4000, lessThanFourSecs)]
   \<and> stores (log (run (held_for 0 3000) [LedToggle, ButtonCheck, LedToggle] (system_init all_high)) LedToggle) = []"
  using ledToggle_never_writes [of "system_init all_high" LedToggle "held_for 0 3000"
      "[LedToggle, ButtonCheck, LedToggle]" all_high]
  by (simp add: pass_def ledToggle_body_def buttonCheck_body_def calls held_for_def system_init_def)

text \<open>
  C8. Every task that \<open>main\<close> creates has the parameter 1, so the assertion at the
  entry of its function holds and the function goes on to its loop, whichever of the
  two creations succeed.
\<close>

theorem task_parameter_assert:
  "\<forall>t \<in> set (create_tasks heap1 heap2).
     pvParameters t = 1 \<and>
     task_entry t n env s =
       Inr (case pxTaskCode t of
              LedToggle \<Rightarrow> ledToggle_loop n s
            | ButtonCheck \<Rightarrow> buttonCheck_loop n env s)"
  by (cases heap1; cases heap2)
    (simp_all add: create_tasks_def xTaskCreate_def task_entry_def ledToggle_def buttonCheck_def)

theorem task_parameter_assert_witness:
  "create_tasks True True =
     [\<lparr>pxTaskCode = LedToggle, pcName = ''LED Toggle'', usStackDepth = 90,
       pvParameters = 1, uxPriority = 1\<rparr>,
      \<lparr>pxTaskCode = ButtonCheck, pcName = ''button Check'', usStackDepth = 90,
       pvParameters = 1, uxPriority = 2\<rparr>]
   \<and> task_entry
         \<lparr>pxTaskCode = LedToggle, pcName = ''LED Toggle'', usStackDepth = 90,
          pvParameters = 1, uxPriority = 1\<rparr>
         0 never_pressed (system_init all_high) = Inr (system_init all_high)
   \<and> task_entry
         \<lparr>pxTaskCode = ButtonCheck, pcName = ''button Check'', usStackDepth = 90,
          pvParameters = 1, uxPriority = 2\<rparr>
         0 never_pressed (system_init all_high) = Inr (system_init all_high)"
  using task_parameter_assert [of True True 0 never_pressed "system_init all_high"]
  by (simp add: create_tasks_def xTaskCreate_def)

text \<open>
  C9. \<open>main\<close> does not return: not when the scheduler starts, and not when
  \<open>vTaskStartScheduler\<close> comes back for lack of heap, where the empty loop of
  line 224 runs for ever.
\<close>

theorem main_never_returns: "main heap1 heap2 heap3 = None"
  by (simp add: main_def vTaskStartScheduler_def for_ever_None)

text \<open>
  C10. In a pass that reads the line low at \<open>t0\<close> and at \<open>t0 + 2000\<close> and high at
  \<open>t0 + 4000\<close>, the write of \<open>lessThanFourSecs\<close> is made at \<open>t0 + 4000\<close> and the
  delay of 2000 is the call after it: the pass is that delay applied to a state \<open>m\<close>
  in which the variable already is \<open>lessThanFourSecs\<close>. Any number of LED passes
  from \<open>m\<close> read that value, and it is the value of the variable at every instant
  from the write to the end of the delay.
\<close>

theorem medium_stored_before_cooldown:
  assumes "now s ButtonCheck = t0"
    and "env PORT_0 PIN1 t0 = PIN_IS_LOW"
    and "env PORT_0 PIN1 (t0 + 2000) = PIN_IS_LOW"
    and "env PORT_0 PIN1 (t0 + 4000) = PIN_IS_HIGH"
  shows "\<exists>m. buttonCheck_body env s = vTaskDelay ButtonCheck 2000 m
           \<and> pushButtonState m = lessThanFourSecs
           \<and> now m ButtonCheck = t0 + 4000
           \<and> stores (log m ButtonCheck) = stores (log s ButtonCheck) @ [(t0 + 4000, lessThanFourSecs)]
           \<and> now (buttonCheck_body env s) ButtonCheck = t0 + 6000
           \<and> (\<forall>k. fst (load_pushButtonState LedToggle (ledToggle_loop k m)) = lessThanFourSecs)
           \<and> (\<forall>t. t0 + 4000 \<le> t \<and> t \<le> t0 + 6000 \<longrightarrow>
                 value_at (stores (log (buttonCheck_body env s) ButtonCheck)) t = lessThanFourSecs)"
proof -
  define m where "m = store_pushButtonState ButtonCheck lessThanFourSecs
     (snd (GPIO_read ButtonCheck env PORT_0 PIN1 (vTaskDelay ButtonCheck 2000
       (snd (GPIO_read ButtonCheck env PORT_0 PIN1 (vTaskDelay ButtonCheck 2000
         (snd (GPIO_read ButtonCheck env PORT_0 PIN1 s))))))))"
  have released: "env PORT_0 PIN1 (4000 + t0) = PIN_IS_HIGH"
    using assms(4) by (simp add: add.commute)
  have body: "buttonCheck_body env s = vTaskDelay ButtonCheck 2000 m"
    using assms(1-3) released by (simp add: buttonCheck_body_def m_def calls)
  have st: "pushButtonState m = lessThanFourSecs"
    by (simp add: m_def store_pushButtonState_def)
  have tm: "now m ButtonCheck = t0 + 4000"
    using assms(1) by (simp add: m_def calls)
  have ws: "stores (log m ButtonCheck) = stores (log s ButtonCheck) @ [(t0 + 4000, lessThanFourSecs)]"
    using assms(1) by (simp add: m_def calls stores_append)
  have ws': "stores (log (vTaskDelay ButtonCheck 2000 m) ButtonCheck) = stores (log m ButtonCheck)"
    by (simp add: calls stores_append)
  have "now (vTaskDelay ButtonCheck 2000 m) ButtonCheck = t0 + 6000"
    using tm by (simp add: calls)
  moreover have "\<forall>k. fst (load_pushButtonState LedToggle (ledToggle_loop k m)) = lessThanFourSecs"
    using st by (simp add: load_pushButtonState_def ledToggle_loop_state)
  moreover have "\<forall>t. t0 + 4000 \<le> t \<and> t \<le> t0 + 6000 \<longrightarrow>
      value_at (stores (log (vTaskDelay ButtonCheck 2000 m) ButtonCheck)) t = lessThanFourSecs"
    by (simp add: ws' ws value_at_snoc)
  ultimately show ?thesis
    using body st tm ws by auto
qed

theorem medium_stored_before_cooldown_witness:
  "buttonCheck_body (held_for 0 3000) (system_init all_high) =
     vTaskDelay ButtonCheck 2000
       ((system_init all_high)
          \<lparr>pushButtonState := lessThanFourSecs,
           now := (now (system_init all_high))(ButtonCheck := 4000),
           log := (log (system_init all_high))(ButtonCheck :=
             [(0, Read PORT_0 PIN1 PIN_IS_LOW), (0, Delay 2000),
              (2000, Read PORT_0 PIN1 PIN_IS_LOW), (2000, Delay 2000),
              (4000, Read PORT_0 PIN1 PIN_IS_HIGH), (4000, Store lessThanFourSecs)])\<rparr>)
   \<and> value_at (stores (log (buttonCheck_body (held_for 0 3000) (system_init all_high)) ButtonCheck)) 5000
       = lessThanFourSecs"
  using medium_stored_before_cooldown [of "system_init all_high" 0 "held_for 0 3000"]
  by (simp add: buttonCheck_body_def calls held_for_def system_init_def value_at_def)

end
